theory Spec2Isabelle
  imports Main "HOL-Library.Word"
begin

unbundle bit_operations_syntax

section \<open>Data model of the H5 (Three-Wire UART) transport\<close>

text \<open>
  The development embeds \<^verbatim>\<open>driver/src/transport/h5_transport.cpp\<close>. The class
  \<^verbatim>\<open>H5Transport\<close> becomes a record of its members; every method becomes a function
  that takes the record and returns the updated one. Calls that leave the class (the lower
  transport, the upward callbacks, the condition variables) are appended to the trace
  \<open>events\<close>, in program order.
\<close>

type_synonym u8 = "8 word"
type_synonym bytes = "u8 list"

text \<open>The enumerations, with the names used in the source.\<close>

datatype h5_pkt_type_t =
    ACK_PACKET
  | HCI_COMMAND_PACKET
  | ACL_DATA_PACKET
  | SYNC_DATA_PACKET
  | HCI_EVENT_PACKET
  | RESET_PACKET
  | VENDOR_SPECIFIC_PACKET
  | LINK_CONTROL_PACKET

datatype h5_state_t =
    STATE_START
  | STATE_RESET
  | STATE_UNINITIALIZED
  | STATE_INITIALIZED
  | STATE_ACTIVE
  | STATE_FAILED
  | STATE_UNKNOWN

datatype control_pkt_type =
    CONTROL_PKT_RESET
  | CONTROL_PKT_ACK
  | CONTROL_PKT_SYNC
  | CONTROL_PKT_SYNC_RESPONSE
  | CONTROL_PKT_SYNC_CONFIG
  | CONTROL_PKT_SYNC_CONFIG_RESPONSE

text \<open>
  Return codes of \<^verbatim>\<open>nrf_error.h\<close> (the header is not among the sources, so the codes
  are kept symbolic; \<open>NRF_ERROR_OTHER\<close> stands for any further value a callee may return).
\<close>

datatype nrf_error =
    NRF_SUCCESS
  | NRF_ERROR_INTERNAL
  | NRF_ERROR_INVALID_STATE
  | NRF_ERROR_TIMEOUT
  | NRF_ERROR_OTHER nat

datatype sd_rpc_app_status_t =
    IO_RESOURCES_UNAVAILABLE
  | RESET_PERFORMED
  | CONNECTION_ACTIVE
  | OTHER_STATUS nat

datatype cv_status = no_timeout | timeout

text \<open>
  Undefined behaviour of the C++ code is a value: dereferencing the null pointer that a
  failed \<^verbatim>\<open>dynamic_cast\<close> returns, and reading a \<^verbatim>\<open>std::vector\<close> past its end.
\<close>

datatype fault = NullPointerDereference | OutOfBoundsRead

definition bindF :: "fault + 'a \<Rightarrow> ('a \<Rightarrow> fault + 'b) \<Rightarrow> fault + 'b" where
  "bindF m f = (case m of Inl e \<Rightarrow> Inl e | Inr x \<Rightarrow> f x)"

text \<open>Calls to collaborators outside the class, in the order the code makes them.\<close>

datatype event =
    LowerSend bytes                    \<comment> \<open>\<^verbatim>\<open>nextTransportLayer->send(pkt)\<close>\<close>
  | LowerOpen                          \<comment> \<open>\<^verbatim>\<open>nextTransportLayer->open(...)\<close>\<close>
  | DataCallback bytes                 \<comment> \<open>\<^verbatim>\<open>dataCallback(data, length)\<close>\<close>
  | StatusCallback sd_rpc_app_status_t \<comment> \<open>\<^verbatim>\<open>statusCallback(code, msg)\<close>\<close>
  | SyncNotify                         \<comment> \<open>\<^verbatim>\<open>syncWaitCondition.notify_all()\<close>\<close>
  | AckNotify                          \<comment> \<open>\<^verbatim>\<open>ackWaitCondition.notify_all()\<close>\<close>
  | StateNotify                        \<comment> \<open>\<^verbatim>\<open>stateWaitCondition.notify_all()\<close>\<close>
  | AckWait nat                        \<comment> \<open>\<^verbatim>\<open>ackWaitCondition.wait_for(lock, ms)\<close>\<close>
  | StateWait h5_state_t nat           \<comment> \<open>\<^verbatim>\<open>stateWaitCondition.wait_for(lock, ms, pred)\<close>\<close>

subsection \<open>Exit criteria\<close>

text \<open>
  Modelled from the spec: the exit-criteria classes are declared in \<^verbatim>\<open>h5_transport.h\<close>,
  which is not among the sources. The flags of each class are those the specification
  lists for its state; the base class carries \<open>ioResourceError\<close> and \<open>close\<close>,
  which the source reads and writes through base-class pointers.
\<close>

record ExitCriterias =
  ioResourceError :: bool
  close :: bool

record StartExitCriterias = ExitCriterias +
  isOpened :: bool

record ResetExitCriterias = ExitCriterias +
  resetSent :: bool

record UninitializedExitCriterias = ExitCriterias +
  syncSent :: bool
  syncRspReceived :: bool

record InitializedExitCriterias = ExitCriterias +
  syncConfigSent :: bool
  syncConfigRspReceived :: bool
  syncConfigReceived :: bool
  syncConfigRspSent :: bool

record ActiveExitCriterias = ExitCriterias +
  irrecoverableSyncError :: bool
  syncReceived :: bool

text \<open>
  A heap object together with its dynamic type. \<^verbatim>\<open>exitCriterias\<close> is a map from states to
  pointers to such objects; a state without an entry stands for the null pointer that
  \<^verbatim>\<open>operator[]\<close> inserts for a missing key.
\<close>

datatype exit_object =
    StartObj StartExitCriterias
  | ResetObj ResetExitCriterias
  | UninitializedObj UninitializedExitCriterias
  | InitializedObj InitializedExitCriterias
  | ActiveObj ActiveExitCriterias



subsection \<open>The codec layer\<close>

text \<open>
  \<^verbatim>\<open>h5_encode\<close>, \<^verbatim>\<open>h5_decode\<close>, \<^verbatim>\<open>slip_encode\<close> and \<^verbatim>\<open>slip_decode\<close> live in \<^verbatim>\<open>h5.cpp\<close> and
  \<^verbatim>\<open>slip.cpp\<close>, and the constant \<^verbatim>\<open>syncConfigField\<close> in a header; none is among the
  sources. The transport takes them as a parameter, so every theorem below holds for any
  codec. A decoder returns \<open>None\<close> where the C++ function returns an error code other than
  \<^verbatim>\<open>NRF_SUCCESS\<close>, and otherwise the values it writes through its out-parameters.
\<close>

record h5_decoded =
  h5Payload :: bytes
  seq_num :: u8
  ack_num :: u8
  reliable_packet :: bool
  packet_type :: h5_pkt_type_t

record h5_lib =
  slip_encode :: "bytes \<Rightarrow> bytes"
  slip_decode :: "bytes \<Rightarrow> bytes option"
  h5_encode :: "bytes \<Rightarrow> u8 \<Rightarrow> u8 \<Rightarrow> bool \<Rightarrow> bool \<Rightarrow> h5_pkt_type_t \<Rightarrow> bytes"
  h5_decode :: "bytes \<Rightarrow> h5_decoded option"
  syncConfigField :: u8

text \<open>The link-control byte patterns, from the table at the head of the source file.\<close>

definition syncFirstByte :: u8 where "syncFirstByte = 0x01"
definition syncSecondByte :: u8 where "syncSecondByte = 0x7e"
definition syncRspFirstByte :: u8 where "syncRspFirstByte = 0x02"
definition syncRspSecondByte :: u8 where "syncRspSecondByte = 0x7d"
definition syncConfigFirstByte :: u8 where "syncConfigFirstByte = 0x03"
definition syncConfigSecondByte :: u8 where "syncConfigSecondByte = 0xfc"
definition syncConfigRspFirstByte :: u8 where "syncConfigRspFirstByte = 0x04"
definition syncConfigRspSecondByte :: u8 where "syncConfigRspSecondByte = 0x7b"

definition PACKET_RETRANSMISSIONS :: nat where "PACKET_RETRANSMISSIONS = 4"
definition OPEN_WAIT_TIMEOUT :: nat where "OPEN_WAIT_TIMEOUT = 2000"

subsection \<open>The transport object\<close>

text \<open>
  The members of \<^verbatim>\<open>H5Transport\<close>. The three packet counters are only ever incremented
  and printed, so they are natural numbers; \<open>stateMachineThread\<close> records whether the
  thread pointer is non-null.
\<close>

record H5Transport =
  seqNum :: u8
  ackNum :: u8
  c0Found :: bool
  unprocessedData :: bytes
  incomingPacketCount :: nat
  outgoingPacketCount :: nat
  errorPacketCount :: nat
  currentState :: h5_state_t
  runStateMachine :: bool
  stateMachineThread :: bool
  lastPacket :: bytes
  retransmissionTimeout :: nat
  exitCriterias :: "h5_state_t \<Rightarrow> exit_object option"
  events :: "event list"

definition emit :: "event \<Rightarrow> H5Transport \<Rightarrow> H5Transport" where
  "emit e s = s\<lparr>events := events s @ [e]\<rparr>"

text \<open>
  \<^verbatim>\<open>setupStateMachine\<close>, lines 543 to 548: one criteria object per state START, RESET,
  UNINITIALIZED, INITIALIZED and ACTIVE, and none for FAILED and UNKNOWN.
\<close>

definition setupStateMachine :: "h5_state_t \<Rightarrow> exit_object option" where
  "setupStateMachine =
     [STATE_START \<mapsto> StartObj \<lparr>ioResourceError = False, close = False, isOpened = False\<rparr>,
      STATE_RESET \<mapsto> ResetObj \<lparr>ioResourceError = False, close = False, resetSent = False\<rparr>,
      STATE_UNINITIALIZED \<mapsto> UninitializedObj
         \<lparr>ioResourceError = False, close = False, syncSent = False, syncRspReceived = False\<rparr>,
      STATE_INITIALIZED \<mapsto> InitializedObj
         \<lparr>ioResourceError = False, close = False, syncConfigSent = False,
          syncConfigRspReceived = False, syncConfigReceived = False, syncConfigRspSent = False\<rparr>,
      STATE_ACTIVE \<mapsto> ActiveObj
         \<lparr>ioResourceError = False, close = False, irrecoverableSyncError = False,
          syncReceived = False\<rparr>]"

text \<open>The constructor, lines 55 to 65.\<close>

definition H5Transport_new :: "nat \<Rightarrow> H5Transport" where
  "H5Transport_new retransmission_timeout =
     \<lparr>seqNum = 0, ackNum = 0, c0Found = False, unprocessedData = [],
      incomingPacketCount = 0, outgoingPacketCount = 0, errorPacketCount = 0,
      currentState = STATE_START, runStateMachine = False, stateMachineThread = False,
      lastPacket = [], retransmissionTimeout = retransmission_timeout,
      exitCriterias = setupStateMachine, events = []\<rparr>"

text \<open>
  The dynamic type of each criteria object is fixed by \<^verbatim>\<open>setupStateMachine\<close> and no other
  code assigns to \<^verbatim>\<open>exitCriterias\<close>; only the flags inside the objects change.
\<close>

definition criterias_typed :: "H5Transport \<Rightarrow> bool" where
  "criterias_typed s =
     ((case exitCriterias s STATE_START of Some (StartObj _) \<Rightarrow> True | _ \<Rightarrow> False) \<and>
      (case exitCriterias s STATE_RESET of Some (ResetObj _) \<Rightarrow> True | _ \<Rightarrow> False) \<and>
      (case exitCriterias s STATE_UNINITIALIZED of Some (UninitializedObj _) \<Rightarrow> True | _ \<Rightarrow> False) \<and>
      (case exitCriterias s STATE_INITIALIZED of Some (InitializedObj _) \<Rightarrow> True | _ \<Rightarrow> False) \<and>
      (case exitCriterias s STATE_ACTIVE of Some (ActiveObj _) \<Rightarrow> True | _ \<Rightarrow> False) \<and>
      exitCriterias s STATE_FAILED = None \<and>
      exitCriterias s STATE_UNKNOWN = None)"

section \<open>Sending control packets and bookkeeping\<close>

text \<open>
  \<^verbatim>\<open>logPacket\<close>, lines 795 to 816: counts the packet; the log line itself goes to a sink
  outside the transport and is not modelled.
\<close>

definition logPacket :: "bool \<Rightarrow> H5Transport \<Rightarrow> H5Transport" where
  "logPacket outgoing s =
     (if outgoing then s\<lparr>outgoingPacketCount := outgoingPacketCount s + 1\<rparr>
      else s\<lparr>incomingPacketCount := incomingPacketCount s + 1\<rparr>)"

definition incrementSeqNum :: "H5Transport \<Rightarrow> H5Transport" where
  "incrementSeqNum s = s\<lparr>seqNum := (seqNum s + 1) AND 0x07\<rparr>"

definition incrementAckNum :: "H5Transport \<Rightarrow> H5Transport" where
  "incrementAckNum s = s\<lparr>ackNum := (ackNum s + 1) AND 0x07\<rparr>"

text \<open>
  The static table \<^verbatim>\<open>pkt_pattern\<close> of \<^verbatim>\<open>sendControlPacket\<close>. It has no entry for
  \<^verbatim>\<open>CONTROL_PKT_ACK\<close>; \<^verbatim>\<open>pkt_pattern[type]\<close> then yields a fresh empty vector.
\<close>

fun pkt_pattern :: "h5_lib \<Rightarrow> control_pkt_type \<Rightarrow> bytes" where
  "pkt_pattern lib CONTROL_PKT_RESET = []"
| "pkt_pattern lib CONTROL_PKT_SYNC = [syncFirstByte, syncSecondByte]"
| "pkt_pattern lib CONTROL_PKT_SYNC_RESPONSE = [syncRspFirstByte, syncRspSecondByte]"
| "pkt_pattern lib CONTROL_PKT_SYNC_CONFIG =
     [syncConfigFirstByte, syncConfigSecondByte, syncConfigField lib]"
| "pkt_pattern lib CONTROL_PKT_SYNC_CONFIG_RESPONSE =
     [syncConfigRspFirstByte, syncConfigRspSecondByte, syncConfigField lib]"
| "pkt_pattern lib CONTROL_PKT_ACK = []"

fun control_h5_packet :: "control_pkt_type \<Rightarrow> h5_pkt_type_t" where
  "control_h5_packet CONTROL_PKT_RESET = RESET_PACKET"
| "control_h5_packet CONTROL_PKT_SYNC = LINK_CONTROL_PACKET"
| "control_h5_packet CONTROL_PKT_SYNC_RESPONSE = LINK_CONTROL_PACKET"
| "control_h5_packet CONTROL_PKT_SYNC_CONFIG = LINK_CONTROL_PACKET"
| "control_h5_packet CONTROL_PKT_SYNC_CONFIG_RESPONSE = LINK_CONTROL_PACKET"
| "control_h5_packet CONTROL_PKT_ACK = ACK_PACKET"

text \<open>The slip-encoded frame that \<^verbatim>\<open>sendControlPacket\<close> builds, lines 648 to 660.\<close>

definition control_frame :: "h5_lib \<Rightarrow> control_pkt_type \<Rightarrow> u8 \<Rightarrow> bytes" where
  "control_frame lib type ack =
     slip_encode lib
       (h5_encode lib (pkt_pattern lib type) 0 (if type = CONTROL_PKT_ACK then ack else 0)
          False False (control_h5_packet type))"

definition sendControlPacket :: "h5_lib \<Rightarrow> control_pkt_type \<Rightarrow> H5Transport \<Rightarrow> H5Transport" where
  "sendControlPacket lib type s =
     (let slipPacket = control_frame lib type (ackNum s);
          s1 = logPacket True s
      in emit (LowerSend slipPacket) s1)"

section \<open>Processing of incoming packets\<close>

text \<open>
  \<^verbatim>\<open>dynamic_cast<T*>(exitCriterias[st])->flag = true\<close>: the cast yields the null pointer
  unless the object at \<open>st\<close> has dynamic type \<open>T\<close>, and the write through a null pointer is
  a fault.
\<close>

definition update_Uninitialized ::
  "h5_state_t \<Rightarrow> (UninitializedExitCriterias \<Rightarrow> UninitializedExitCriterias) \<Rightarrow>
   H5Transport \<Rightarrow> fault + H5Transport" where
  "update_Uninitialized st f s =
     (case exitCriterias s st of
        Some (UninitializedObj e) \<Rightarrow>
          Inr (s\<lparr>exitCriterias := (exitCriterias s)(st \<mapsto> UninitializedObj (f e))\<rparr>)
      | _ \<Rightarrow> Inl NullPointerDereference)"

definition update_Initialized ::
  "h5_state_t \<Rightarrow> (InitializedExitCriterias \<Rightarrow> InitializedExitCriterias) \<Rightarrow>
   H5Transport \<Rightarrow> fault + H5Transport" where
  "update_Initialized st f s =
     (case exitCriterias s st of
        Some (InitializedObj e) \<Rightarrow>
          Inr (s\<lparr>exitCriterias := (exitCriterias s)(st \<mapsto> InitializedObj (f e))\<rparr>)
      | _ \<Rightarrow> Inl NullPointerDereference)"

definition update_Active ::
  "h5_state_t \<Rightarrow> (ActiveExitCriterias \<Rightarrow> ActiveExitCriterias) \<Rightarrow>
   H5Transport \<Rightarrow> fault + H5Transport" where
  "update_Active st f s =
     (case exitCriterias s st of
        Some (ActiveObj e) \<Rightarrow>
          Inr (s\<lparr>exitCriterias := (exitCriterias s)(st \<mapsto> ActiveObj (f e))\<rparr>)
      | _ \<Rightarrow> Inl NullPointerDereference)"

definition update_Start ::
  "h5_state_t \<Rightarrow> (StartExitCriterias \<Rightarrow> StartExitCriterias) \<Rightarrow>
   H5Transport \<Rightarrow> fault + H5Transport" where
  "update_Start st f s =
     (case exitCriterias s st of
        Some (StartObj e) \<Rightarrow>
          Inr (s\<lparr>exitCriterias := (exitCriterias s)(st \<mapsto> StartObj (f e))\<rparr>)
      | _ \<Rightarrow> Inl NullPointerDereference)"

text \<open>
  \<^verbatim>\<open>h5Payload[0] == b0 && h5Payload[1] == b1\<close>, lines 224 to 227. The second byte is read
  only when the first one matches; either read is out of bounds on a payload that is too
  short.
\<close>

definition payload_matches :: "bytes \<Rightarrow> u8 \<Rightarrow> u8 \<Rightarrow> fault + bool" where
  "payload_matches p b0 b1 =
     (case p of
        [] \<Rightarrow> Inl OutOfBoundsRead
      | x # rest \<Rightarrow>
          if x = b0 then (case rest of [] \<Rightarrow> Inl OutOfBoundsRead | y # _ \<Rightarrow> Inr (y = b1))
          else Inr False)"

text \<open>
  The branch for \<^verbatim>\<open>LINK_CONTROL_PACKET\<close>, lines 222 to 271, with one definition for
  each of the three states it distinguishes.
\<close>

definition linkControl_UNINITIALIZED ::
  "h5_lib \<Rightarrow> bool \<Rightarrow> bool \<Rightarrow> H5Transport \<Rightarrow> fault + H5Transport" where
  "linkControl_UNINITIALIZED lib isSyncPacket isSyncResponsePacket s =
     bindF (if isSyncResponsePacket
            then bindF (update_Uninitialized (currentState s) (\<lambda>e. e\<lparr>syncRspReceived := True\<rparr>) s)
                   (\<lambda>s1. Inr (emit SyncNotify s1))
            else Inr s) (\<lambda>s2.
     Inr (if isSyncPacket then sendControlPacket lib CONTROL_PKT_SYNC_RESPONSE s2 else s2))"

definition linkControl_INITIALIZED ::
  "h5_lib \<Rightarrow> bool \<Rightarrow> bool \<Rightarrow> bool \<Rightarrow> H5Transport \<Rightarrow> fault + H5Transport" where
  "linkControl_INITIALIZED lib isSyncPacket isSyncConfigPacket isSyncConfigResponsePacket s =
     bindF (if isSyncConfigResponsePacket
            then bindF (update_Initialized (currentState s)
                          (\<lambda>e. e\<lparr>syncConfigRspReceived := True\<rparr>) s)
                   (\<lambda>s1. Inr (emit SyncNotify s1))
            else Inr s) (\<lambda>s2.
     bindF (if isSyncConfigPacket
            then bindF (update_Initialized (currentState s2)
                          (\<lambda>e. e\<lparr>syncConfigReceived := True\<rparr>) s2) (\<lambda>s3.
                 bindF (update_Initialized (currentState s3)
                          (\<lambda>e. e\<lparr>syncConfigRspSent := True\<rparr>)
                          (sendControlPacket lib CONTROL_PKT_SYNC_CONFIG_RESPONSE s3))
                   (\<lambda>s4. Inr (emit SyncNotify s4)))
            else Inr s2) (\<lambda>s5.
     Inr (if isSyncPacket then sendControlPacket lib CONTROL_PKT_SYNC_RESPONSE s5 else s5)))"

definition linkControl_ACTIVE :: "bool \<Rightarrow> H5Transport \<Rightarrow> fault + H5Transport" where
  "linkControl_ACTIVE isSyncPacket s =
     (if isSyncPacket
      then bindF (update_Active (currentState s) (\<lambda>e. e\<lparr>syncReceived := True\<rparr>) s)
             (\<lambda>s1. Inr (emit SyncNotify s1))
      else Inr s)"

definition processLinkControl :: "h5_lib \<Rightarrow> H5Transport \<Rightarrow> bytes \<Rightarrow> fault + H5Transport" where
  "processLinkControl lib s p =
     bindF (payload_matches p syncFirstByte syncSecondByte) (\<lambda>isSyncPacket.
     bindF (payload_matches p syncRspFirstByte syncRspSecondByte) (\<lambda>isSyncResponsePacket.
     bindF (payload_matches p syncConfigFirstByte syncConfigSecondByte) (\<lambda>isSyncConfigPacket.
     bindF (payload_matches p syncConfigRspFirstByte syncConfigRspSecondByte)
       (\<lambda>isSyncConfigResponsePacket.
     if currentState s = STATE_UNINITIALIZED then
       linkControl_UNINITIALIZED lib isSyncPacket isSyncResponsePacket s
     else if currentState s = STATE_INITIALIZED then
       linkControl_INITIALIZED lib isSyncPacket isSyncConfigPacket isSyncConfigResponsePacket s
     else if currentState s = STATE_ACTIVE then
       linkControl_ACTIVE isSyncPacket s
     else Inr s))))"

text \<open>The branch for \<^verbatim>\<open>VENDOR_SPECIFIC_PACKET\<close>, lines 272 to 291.\<close>

definition processVendorSpecific ::
  "h5_lib \<Rightarrow> H5Transport \<Rightarrow> h5_decoded \<Rightarrow> fault + H5Transport" where
  "processVendorSpecific lib s d =
     (if currentState s = STATE_ACTIVE then
        if reliable_packet d then
          if seq_num d = ackNum s then
            Inr (emit (DataCallback (h5Payload d))
                   (sendControlPacket lib CONTROL_PKT_ACK (incrementAckNum s)))
          else
            bindF (update_Active (currentState s) (\<lambda>e. e\<lparr>irrecoverableSyncError := True\<rparr>) s)
              (\<lambda>s1. Inr (emit SyncNotify s1))
        else Inr s
      else Inr s)"

text \<open>
  The branch for \<^verbatim>\<open>ACK_PACKET\<close>, lines 292 to 310. In \<^verbatim>\<open>ack_num == seqNum + 1\<close> both
  operands are promoted to \<^verbatim>\<open>int\<close>, so the sum is not reduced modulo 8 or 256.
\<close>

definition processAck :: "H5Transport \<Rightarrow> h5_decoded \<Rightarrow> fault + H5Transport" where
  "processAck s d =
     (if unat (ack_num d) = unat (seqNum s) + 1 then
        Inr (emit AckNotify (incrementSeqNum s))
      else if ack_num d = seqNum s then Inr s
      else
        bindF (update_Active (currentState s) (\<lambda>e. e\<lparr>irrecoverableSyncError := True\<rparr>) s)
          (\<lambda>s1. Inr (emit SyncNotify s1)))"

text \<open>\<^verbatim>\<open>H5Transport::processPacket\<close>, lines 183 to 311.\<close>

definition processPacket :: "h5_lib \<Rightarrow> H5Transport \<Rightarrow> bytes \<Rightarrow> fault + H5Transport" where
  "processPacket lib s packet =
     (case slip_decode lib packet of
        None \<Rightarrow> Inr (s\<lparr>errorPacketCount := errorPacketCount s + 1\<rparr>)
      | Some slipPayload \<Rightarrow>
          (let s1 = logPacket False s in
           case h5_decode lib slipPayload of
             None \<Rightarrow> Inr (s1\<lparr>errorPacketCount := errorPacketCount s1 + 1\<rparr>)
           | Some d \<Rightarrow>
               if currentState s1 = STATE_RESET then Inr (emit SyncNotify s1)
               else if packet_type d = LINK_CONTROL_PACKET then
                 processLinkControl lib s1 (h5Payload d)
               else if packet_type d = VENDOR_SPECIFIC_PACKET then
                 processVendorSpecific lib s1 d
               else if packet_type d = ACK_PACKET then processAck s1 d
               else Inr s1))"

section \<open>The receive assembler\<close>

text \<open>
  The loop of \<^verbatim>\<open>H5Transport::dataHandler\<close>, lines 335 to 369, over the bytes of one
  chunk; \<open>packet\<close> is the local vector. The packet handler is a parameter, so that
  theorems can speak about the calls made to it; the transport passes \<open>processPacket\<close>.
\<close>

fun dataHandler_loop ::
  "(H5Transport \<Rightarrow> bytes \<Rightarrow> fault + H5Transport) \<Rightarrow> bytes \<Rightarrow> H5Transport \<Rightarrow> bytes \<Rightarrow>
   fault + (H5Transport \<times> bytes)" where
  "dataHandler_loop pp [] s packet = Inr (s, packet)"
| "dataHandler_loop pp (b # bs) s packet =
     (if b = 0xC0 then
        if c0Found s then
          if length (packet @ [b]) = 2 then dataHandler_loop pp bs s [0xC0]
          else
            (case pp s (packet @ [b]) of
               Inl e \<Rightarrow> Inl e
             | Inr s1 \<Rightarrow>
                 dataHandler_loop pp bs (s1\<lparr>unprocessedData := [], c0Found := False\<rparr>) [])
        else dataHandler_loop pp bs (s\<lparr>c0Found := True\<rparr>) [0xC0]
      else dataHandler_loop pp bs s (packet @ [b]))"

text \<open>\<^verbatim>\<open>H5Transport::dataHandler\<close>, lines 324 to 376.\<close>

definition dataHandler_with ::
  "(H5Transport \<Rightarrow> bytes \<Rightarrow> fault + H5Transport) \<Rightarrow> H5Transport \<Rightarrow> bytes \<Rightarrow>
   fault + H5Transport" where
  "dataHandler_with pp s data =
     (case dataHandler_loop pp data s (unprocessedData s) of
        Inl e \<Rightarrow> Inl e
      | Inr (s1, packet) \<Rightarrow>
          Inr (if packet \<noteq> [] then s1\<lparr>unprocessedData := packet\<rparr> else s1))"

definition dataHandler :: "h5_lib \<Rightarrow> H5Transport \<Rightarrow> bytes \<Rightarrow> fault + H5Transport" where
  "dataHandler lib = dataHandler_with (processPacket lib)"

text \<open>The lower transport delivers a byte stream as successive chunks.\<close>

fun feed_chunks ::
  "(H5Transport \<Rightarrow> bytes \<Rightarrow> fault + H5Transport) \<Rightarrow> H5Transport \<Rightarrow> bytes list \<Rightarrow>
   fault + H5Transport" where
  "feed_chunks pp s [] = Inr s"
| "feed_chunks pp s (c # cs) =
     (case dataHandler_with pp s c of Inl e \<Rightarrow> Inl e | Inr s1 \<Rightarrow> feed_chunks pp s1 cs)"

text \<open>
  The reference behaviour for the assembler: the handler is called on each frame of a
  list, in order, and after each call the assembler is emptied as lines 355 to 357 do.
\<close>

fun process_frames ::
  "(H5Transport \<Rightarrow> bytes \<Rightarrow> fault + H5Transport) \<Rightarrow> H5Transport \<Rightarrow> bytes list \<Rightarrow>
   fault + H5Transport" where
  "process_frames pp s [] = Inr s"
| "process_frames pp s (f # fs) =
     (case pp s f of
        Inl e \<Rightarrow> Inl e
      | Inr s1 \<Rightarrow> process_frames pp (s1\<lparr>unprocessedData := [], c0Found := False\<rparr>) fs)"

text \<open>
  A well-formed stuffed frame: a delimiter, a non-empty body that contains no delimiter,
  and a delimiter.
\<close>

definition well_formed_frame :: "bytes \<Rightarrow> bool" where
  "well_formed_frame f =
     (3 \<le> length f \<and> hd f = 0xC0 \<and> last f = 0xC0 \<and> 0xC0 \<notin> set (butlast (tl f)))"

section \<open>The reliable sender\<close>

definition ack_notifications :: "H5Transport \<Rightarrow> nat" where
  "ack_notifications s = length (filter (\<lambda>e. e = AckNotify) (events s))"

text \<open>
  \<^verbatim>\<open>ackWaitCondition.wait_for(ackGuard, retransmissionTimeout)\<close>, line 167. While the
  caller is blocked the reader thread processes the packets that arrive; the list is what
  arrives within the timeout. The caller is woken, with \<open>no_timeout\<close>, by the first
  packet whose processing notifies \<^verbatim>\<open>ackWaitCondition\<close>, and it resumes before the reader
  processes the next one; when no packet does so the wait ends with \<open>timeout\<close>. Spurious
  wake-ups and steps of the state-machine thread during the wait are not modelled.
\<close>

fun wait_for_ack ::
  "h5_lib \<Rightarrow> bytes list \<Rightarrow> H5Transport \<Rightarrow> fault + (cv_status \<times> H5Transport)" where
  "wait_for_ack lib [] s = Inr (timeout, s)"
| "wait_for_ack lib (p # ps) s =
     (case processPacket lib s p of
        Inl e \<Rightarrow> Inl e
      | Inr s1 \<Rightarrow>
          if ack_notifications s < ack_notifications s1 then Inr (no_timeout, s1)
          else wait_for_ack lib ps s1)"

text \<open>
  The loop of \<^verbatim>\<open>H5Transport::send\<close>, lines 162 to 178; the first argument is
  \<^verbatim>\<open>remainingRetransmissions\<close>. \<open>windows\<close> holds, for each wait in turn, the packets
  that arrive during it; a missing window is an empty one.
\<close>

fun send_loop ::
  "h5_lib \<Rightarrow> nat \<Rightarrow> bytes list list \<Rightarrow> H5Transport \<Rightarrow> fault + (nrf_error \<times> H5Transport)" where
  "send_loop lib 0 windows s = Inr (NRF_ERROR_TIMEOUT, s\<lparr>lastPacket := []\<rparr>)"
| "send_loop lib (Suc n) windows s =
     (let s1 = logPacket True s;
          s2 = emit (LowerSend (lastPacket s1)) s1;
          s3 = emit (AckWait (retransmissionTimeout s2)) s2
      in case wait_for_ack lib (case windows of [] \<Rightarrow> [] | w # _ \<Rightarrow> w) s3 of
           Inl e \<Rightarrow> Inl e
         | Inr (status, s4) \<Rightarrow>
             if status = no_timeout then Inr (NRF_SUCCESS, s4\<lparr>lastPacket := []\<rparr>)
             else send_loop lib n (tl windows) s4)"

text \<open>\<^verbatim>\<open>H5Transport::send\<close>, lines 135 to 179.\<close>

definition send ::
  "h5_lib \<Rightarrow> H5Transport \<Rightarrow> bytes \<Rightarrow> bytes list list \<Rightarrow> fault + (nrf_error \<times> H5Transport)" where
  "send lib s data windows =
     (if currentState s \<noteq> STATE_ACTIVE then Inr (NRF_ERROR_INVALID_STATE, s)
      else
        let h5EncodedPacket =
              h5_encode lib data (seqNum s) (ackNum s) True True VENDOR_SPECIFIC_PACKET;
            encodedPacket = slip_encode lib h5EncodedPacket
        in send_loop lib PACKET_RETRANSMISSIONS windows (s\<lparr>lastPacket := encodedPacket\<rparr>))"

section \<open>The state machine\<close>



text \<open>\<^verbatim>\<open>H5Transport::startStateMachine\<close>, lines 551 to 560.\<close>

definition startStateMachine :: "H5Transport \<Rightarrow> H5Transport" where
  "startStateMachine s =
     s\<lparr>runStateMachine := True, currentState := STATE_START, stateMachineThread := True\<rparr>"

text \<open>
  \<^verbatim>\<open>H5Transport::waitForState\<close>, lines 599 to 612. The caller blocks for at most the
  given time; \<open>concurrent\<close> is what the other threads do to the object until the wait
  ends, and the result is read from \<open>currentState\<close> afterwards.
\<close>

definition waitForState ::
  "h5_state_t \<Rightarrow> nat \<Rightarrow> (H5Transport \<Rightarrow> H5Transport) \<Rightarrow> H5Transport \<Rightarrow> bool \<times> H5Transport" where
  "waitForState state ms concurrent s =
     (let s1 = concurrent (emit (StateWait state ms) s)
      in (currentState s1 = state, s1))"

text \<open>
  \<^verbatim>\<open>H5Transport::open\<close>, lines 72 to 115. \<open>base_result\<close> is what \<^verbatim>\<open>Transport::open\<close> of the
  base class returns and \<open>lower_result\<close> what \<^verbatim>\<open>nextTransportLayer->open\<close> returns.
\<close>

definition "open" ::
  "H5Transport \<Rightarrow> nrf_error \<Rightarrow> nrf_error \<Rightarrow> (H5Transport \<Rightarrow> H5Transport) \<Rightarrow>
   fault + (nrf_error \<times> H5Transport)" where
  "open s base_result lower_result concurrent =
     (if currentState s \<noteq> STATE_START then Inr (NRF_ERROR_INTERNAL, s)
      else
        let s1 = (startStateMachine s)\<lparr>lastPacket := []\<rparr> in
        if base_result \<noteq> NRF_SUCCESS then
          bindF (update_Start STATE_START (\<lambda>e. e\<lparr>ioResourceError := True\<rparr>) s1)
            (\<lambda>s2. Inr (base_result, emit SyncNotify s2))
        else
          let s2 = emit LowerOpen s1 in
          if lower_result \<noteq> NRF_SUCCESS then
            bindF (update_Start STATE_START (\<lambda>e. e\<lparr>ioResourceError := True\<rparr>) s2)
              (\<lambda>s3. Inr (NRF_ERROR_INTERNAL, emit SyncNotify s3))
          else
            bindF (update_Start STATE_START (\<lambda>e. e\<lparr>isOpened := True\<rparr>) s2) (\<lambda>s3.
              case waitForState STATE_ACTIVE OPEN_WAIT_TIMEOUT concurrent (emit SyncNotify s3) of
                (reached, s4) \<Rightarrow>
                  Inr (if reached then NRF_SUCCESS else NRF_ERROR_TIMEOUT, s4)))"

section \<open>A concrete codec\<close>

text \<open>
  Modelled from the spec: \<^verbatim>\<open>slip.cpp\<close> is not among the sources. Section 4.1 of the
  specification: the body is enclosed in two \<open>0xC0\<close> delimiters, \<open>0xC0\<close> is escaped as
  \<open>0xDB 0xDC\<close> and \<open>0xDB\<close> as \<open>0xDB 0xDD\<close>; decoding accepts a frame with or without the
  delimiters and fails on an escape byte followed by anything else or by nothing.
\<close>

definition spec_slip_escape :: "u8 \<Rightarrow> bytes" where
  "spec_slip_escape b =
     (if b = 0xC0 then [0xDB, 0xDC] else if b = 0xDB then [0xDB, 0xDD] else [b])"

definition spec_slip_encode :: "bytes \<Rightarrow> bytes" where
  "spec_slip_encode p = 0xC0 # concat (map spec_slip_escape p) @ [0xC0]"

fun spec_slip_unescape :: "bytes \<Rightarrow> bytes option" where
  "spec_slip_unescape [] = Some []"
| "spec_slip_unescape [x] = (if x = 0xDB then None else Some [x])"
| "spec_slip_unescape (x # y # r) =
     (if x = 0xDB then
        if y = 0xDC then map_option (\<lambda>t. 0xC0 # t) (spec_slip_unescape r)
        else if y = 0xDD then map_option (\<lambda>t. 0xDB # t) (spec_slip_unescape r)
        else None
      else map_option (\<lambda>t. x # t) (spec_slip_unescape (y # r)))"

definition strip_delimiters :: "bytes \<Rightarrow> bytes" where
  "strip_delimiters f =
     (let g = (case f of [] \<Rightarrow> [] | x # r \<Rightarrow> if x = 0xC0 then r else f)
      in if g \<noteq> [] \<and> last g = 0xC0 then butlast g else g)"

definition spec_slip_decode :: "bytes \<Rightarrow> bytes option" where
  "spec_slip_decode f = spec_slip_unescape (strip_delimiters f)"

text \<open>
  Modelled from the spec: \<^verbatim>\<open>h5.cpp\<close> is not among the sources. Sections 3, 4.2 and 6 of
  the specification: byte 0 holds \<open>ack_num\<close> in bits 0 to 2, the integrity flag in bit 3,
  the reliable flag in bit 4 and \<open>seq_num\<close> in bits 5 to 7; byte 1 holds the packet type in
  bits 0 to 3 and the low four bits of the payload length in bits 4 to 7; byte 2 holds
  the other eight bits of the length; byte 3 makes the four bytes sum to 0 modulo 256.
  Decoding fails on fewer than four bytes, a wrong checksum, a length that differs from
  the number of payload bytes, or a set integrity flag. A type code outside the table of
  section 6 is no packet type and fails to decode as well.
\<close>

fun spec_type_code :: "h5_pkt_type_t \<Rightarrow> u8" where
  "spec_type_code ACK_PACKET = 0"
| "spec_type_code HCI_COMMAND_PACKET = 1"
| "spec_type_code ACL_DATA_PACKET = 2"
| "spec_type_code SYNC_DATA_PACKET = 3"
| "spec_type_code HCI_EVENT_PACKET = 4"
| "spec_type_code RESET_PACKET = 5"
| "spec_type_code VENDOR_SPECIFIC_PACKET = 9"
| "spec_type_code LINK_CONTROL_PACKET = 15"

definition spec_type_of_code :: "u8 \<Rightarrow> h5_pkt_type_t option" where
  "spec_type_of_code c =
     (if c = 0 then Some ACK_PACKET
      else if c = 1 then Some HCI_COMMAND_PACKET
      else if c = 2 then Some ACL_DATA_PACKET
      else if c = 3 then Some SYNC_DATA_PACKET
      else if c = 4 then Some HCI_EVENT_PACKET
      else if c = 5 then Some RESET_PACKET
      else if c = 9 then Some VENDOR_SPECIFIC_PACKET
      else if c = 15 then Some LINK_CONTROL_PACKET
      else None)"

definition spec_h5_encode ::
  "bytes \<Rightarrow> u8 \<Rightarrow> u8 \<Rightarrow> bool \<Rightarrow> bool \<Rightarrow> h5_pkt_type_t \<Rightarrow> bytes" where
  "spec_h5_encode payload seq ack reliable integrity type =
     (let b0 = (ack AND 0x07) OR (if integrity then 0x08 else 0) OR
               (if reliable then 0x10 else 0) OR push_bit 5 (seq AND 0x07);
          b1 = spec_type_code type OR push_bit 4 (of_nat (length payload) AND 0x0F);
          b2 = of_nat (length payload div 16);
          b3 = - (b0 + b1 + b2)
      in [b0, b1, b2, b3] @ payload)"

definition spec_h5_decode :: "bytes \<Rightarrow> h5_decoded option" where
  "spec_h5_decode bs =
     (case bs of
        b0 # b1 # b2 # b3 # payload \<Rightarrow>
          if b0 + b1 + b2 + b3 \<noteq> 0 then None
          else if unat (drop_bit 4 b1) + 16 * unat b2 \<noteq> length payload then None
          else if bit b0 3 then None
          else
            (case spec_type_of_code (b1 AND 0x0F) of
               None \<Rightarrow> None
             | Some t \<Rightarrow>
                 Some \<lparr>h5Payload = payload, seq_num = drop_bit 5 b0, ack_num = b0 AND 0x07,
                       reliable_packet = bit b0 4, packet_type = t\<rparr>)
      | _ \<Rightarrow> None)"

text \<open>
  The specification fixes no value for the configuration byte; no theorem depends on the
  one chosen here.
\<close>

definition spec_lib :: h5_lib where
  "spec_lib =
     \<lparr>slip_encode = spec_slip_encode, slip_decode = spec_slip_decode,
      h5_encode = spec_h5_encode, h5_decode = spec_h5_decode, syncConfigField = 0x11\<rparr>"

text \<open>A transport in a given state with the given counters, otherwise as constructed.\<close>

definition transport_in :: "h5_state_t \<Rightarrow> u8 \<Rightarrow> u8 \<Rightarrow> H5Transport" where
  "transport_in st sq ak =
     (H5Transport_new 250)\<lparr>currentState := st, seqNum := sq, ackNum := ak,
                            runStateMachine := True, stateMachineThread := True\<rparr>"

section \<open>Notions used in the statements\<close>



text \<open>Events that the reader thread emits without waking the sender.\<close>

definition reader_event :: "event \<Rightarrow> bool" where
  "reader_event e = (case e of AckNotify \<Rightarrow> False | AckWait _ \<Rightarrow> False | _ \<Rightarrow> True)"



text \<open>A packet handler that neither reads nor writes the two members of the assembler.\<close>

definition ignores_assembler :: "(H5Transport \<Rightarrow> bytes \<Rightarrow> fault + H5Transport) \<Rightarrow> bool" where
  "ignores_assembler pp \<longleftrightarrow>
     (\<forall>s f u c. pp (s\<lparr>unprocessedData := u, c0Found := c\<rparr>) f =
        (case pp s f of
           Inl e \<Rightarrow> Inl e
         | Inr s1 \<Rightarrow> Inr (s1\<lparr>unprocessedData := u, c0Found := c\<rparr>)))"


section \<open>Basic facts\<close>

lemma bindF_simps [simp]:
  "bindF (Inl e) f = Inl e"
  "bindF (Inr x) f = f x"
  by (simp_all add: bindF_def)


text \<open>Masking the successor of a byte with 7 is the successor modulo 8.\<close>

lemma unat_mask3_succ: "unat (((x::u8) + 1) AND 0x07) = (unat x + 1) mod 8"
proof -
  have m: "(0x07::u8) = mask 3" by (simp add: mask_eq_exp_minus_1)
  have "unat ((x + 1) AND mask 3) = unat (take_bit 3 (x + 1))"
    by (simp only: take_bit_eq_mask)
  also have "\<dots> = take_bit 3 (unat (x + 1))"
    by (rule unsigned_take_bit_eq)
  also have "\<dots> = unat (x + 1) mod 2 ^ 3"
    by (rule take_bit_eq_mod)
  also have "unat (x + 1) = (unat x + 1) mod 256"
    by (simp add: unat_word_ariths)
  also have "(unat x + 1) mod 256 mod 2 ^ 3 = (unat x + 1) mod 8"
    by (simp add: mod_mod_cancel)
  finally show ?thesis by (simp only: m)
qed

lemma emit_simps [simp]:
  "events (emit e s) = events s @ [e]"
  "seqNum (emit e s) = seqNum s"
  "ackNum (emit e s) = ackNum s"
  "currentState (emit e s) = currentState s"
  "exitCriterias (emit e s) = exitCriterias s"
  "lastPacket (emit e s) = lastPacket s"
  "retransmissionTimeout (emit e s) = retransmissionTimeout s"
  by (simp_all add: emit_def)

lemma logPacket_simps [simp]:
  "events (logPacket b s) = events s"
  "seqNum (logPacket b s) = seqNum s"
  "ackNum (logPacket b s) = ackNum s"
  "currentState (logPacket b s) = currentState s"
  "exitCriterias (logPacket b s) = exitCriterias s"
  "lastPacket (logPacket b s) = lastPacket s"
  "retransmissionTimeout (logPacket b s) = retransmissionTimeout s"
  by (simp_all add: logPacket_def)

subsection \<open>Frames of the concrete codec\<close>

lemmas spec_codec_defs =
  spec_lib_def spec_slip_decode_def strip_delimiters_def spec_h5_decode_def
  spec_type_of_code_def spec_slip_encode_def spec_slip_escape_def spec_h5_encode_def

lemmas transport_in_defs = transport_in_def H5Transport_new_def setupStateMachine_def

lemma slip_decode_ack0: "slip_decode spec_lib [0xC0, 0, 0, 0, 0, 0xC0] = Some [0, 0, 0, 0]"
  by (simp add: spec_codec_defs)

lemma h5_decode_ack0:
  "h5_decode spec_lib [0, 0, 0, 0] =
     Some \<lparr>h5Payload = [], seq_num = 0, ack_num = 0, reliable_packet = False,
           packet_type = ACK_PACKET\<rparr>"
  by (simp add: spec_codec_defs)

lemma slip_decode_ack1:
  "slip_decode spec_lib [0xC0, 1, 0, 0, 0xFF, 0xC0] = Some [1, 0, 0, 0xFF]"
  by (simp add: spec_codec_defs)

lemma h5_decode_ack1:
  "h5_decode spec_lib [1, 0, 0, 0xFF] =
     Some \<lparr>h5Payload = [], seq_num = 0, ack_num = 1, reliable_packet = False,
           packet_type = ACK_PACKET\<rparr>"
  by (simp add: spec_codec_defs)

lemma slip_decode_ack5:
  "slip_decode spec_lib [0xC0, 5, 0, 0, 0xFB, 0xC0] = Some [5, 0, 0, 0xFB]"
  by (simp add: spec_codec_defs)

lemma h5_decode_ack5:
  "h5_decode spec_lib [5, 0, 0, 0xFB] =
     Some \<lparr>h5Payload = [], seq_num = 0, ack_num = 5, reliable_packet = False,
           packet_type = ACK_PACKET\<rparr>"
  by (simp add: spec_codec_defs)

lemma slip_decode_data:
  "slip_decode spec_lib [0xC0, 0x10, 0x29, 0, 0xC7, 0xAA, 0xBB, 0xC0] =
     Some [0x10, 0x29, 0, 0xC7, 0xAA, 0xBB]"
  by (simp add: spec_codec_defs)

lemma h5_decode_data:
  "h5_decode spec_lib [0x10, 0x29, 0, 0xC7, 0xAA, 0xBB] =
     Some \<lparr>h5Payload = [0xAA, 0xBB], seq_num = 0, ack_num = 0, reliable_packet = True,
           packet_type = VENDOR_SPECIFIC_PACKET\<rparr>"
  by (simp add: spec_codec_defs)

section \<open>Acknowledgements received: C1\<close>

text \<open>
  C1. The claim: for every \<open>seqNum\<close> in 0..7, an ACK packet whose \<open>ack_num\<close> is
  \<open>(seqNum + 1) mod 8\<close> advances \<open>seqNum\<close> by one modulo 8 and notifies the ack wait
  condition, also across the wrap from 7 to 0. The code compares \<open>ack_num\<close> with
  \<open>seqNum + 1\<close> without reducing the sum. Evaluated at \<open>seqNum = 7\<close> in state ACTIVE on the
  ACK packet with \<open>ack_num = 0\<close> (the frame C0 00 00 00 00 C0 of the concrete codec):
  \<open>seqNum\<close> stays 7, \<open>ackWaitCondition\<close> is not notified, and the packet is treated as a
  loss of synchronisation: \<open>irrecoverableSyncError\<close> is set and \<open>syncWaitCondition\<close> is
  notified.
\<close>

theorem ack_wrap_from_7_rejected:
  "processPacket spec_lib (transport_in STATE_ACTIVE 7 0) [0xC0, 0, 0, 0, 0, 0xC0] =
     Inr ((transport_in STATE_ACTIVE 7 0)
            \<lparr>incomingPacketCount := 1,
             exitCriterias := setupStateMachine(STATE_ACTIVE \<mapsto> ActiveObj
               \<lparr>ioResourceError = False, close = False, irrecoverableSyncError = True,
                syncReceived = False\<rparr>),
             events := [SyncNotify]\<rparr>)"
  by (simp add: processPacket_def processAck_def logPacket_def update_Active_def
        slip_decode_ack0 h5_decode_ack0 transport_in_defs emit_def)

section \<open>Reliable packets received in ACTIVE: C2\<close>

text \<open>
  C2. In state ACTIVE, a received VENDOR_SPECIFIC packet with the reliable flag set and
  \<open>seq_num = ackNum\<close> advances \<open>ackNum\<close> by exactly one modulo 8, emits exactly one ACK
  control frame, which carries the new \<open>ackNum\<close>, and then hands the payload to the data
  callback; with \<open>seq_num \<noteq> ackNum\<close> nothing is delivered, \<open>ackNum\<close> is unchanged,
  \<open>irrecoverableSyncError\<close> is set and \<open>syncWaitCondition\<close> is notified.
\<close>

theorem reliable_vendor_packet_in_ACTIVE:
  assumes "currentState s = STATE_ACTIVE"
    and "slip_decode lib packet = Some sp"
    and "h5_decode lib sp = Some d"
    and "packet_type d = VENDOR_SPECIFIC_PACKET"
    and "reliable_packet d"
    and "exitCriterias s STATE_ACTIVE = Some (ActiveObj ec)"
  shows "(seq_num d = ackNum s \<longrightarrow>
           (\<exists>s'. processPacket lib s packet = Inr s' \<and>
              unat (ackNum s') = (unat (ackNum s) + 1) mod 8 \<and>
              events s' = events s @
                 [LowerSend (slip_encode lib
                    (h5_encode lib [] 0 (ackNum s') False False ACK_PACKET)),
                  DataCallback (h5Payload d)] \<and>
              exitCriterias s' = exitCriterias s)) \<and>
         (seq_num d \<noteq> ackNum s \<longrightarrow>
           (\<exists>s'. processPacket lib s packet = Inr s' \<and>
              ackNum s' = ackNum s \<and>
              events s' = events s @ [SyncNotify] \<and>
              exitCriterias s' =
                (exitCriterias s)(STATE_ACTIVE \<mapsto>
                   ActiveObj (ec\<lparr>irrecoverableSyncError := True\<rparr>))))"
  using assms
  by (simp add: processPacket_def processVendorSpecific_def logPacket_def update_Active_def
        sendControlPacket_def control_frame_def incrementAckNum_def unat_mask3_succ Let_def)

theorem reliable_vendor_packet_in_ACTIVE_witness:
  "currentState (transport_in STATE_ACTIVE 0 0) = STATE_ACTIVE \<and>
   slip_decode spec_lib [0xC0, 0x10, 0x29, 0, 0xC7, 0xAA, 0xBB, 0xC0] =
     Some [0x10, 0x29, 0, 0xC7, 0xAA, 0xBB] \<and>
   h5_decode spec_lib [0x10, 0x29, 0, 0xC7, 0xAA, 0xBB] =
     Some \<lparr>h5Payload = [0xAA, 0xBB], seq_num = 0, ack_num = 0, reliable_packet = True,
           packet_type = VENDOR_SPECIFIC_PACKET\<rparr> \<and>
   (\<exists>s'. processPacket spec_lib (transport_in STATE_ACTIVE 0 0)
            [0xC0, 0x10, 0x29, 0, 0xC7, 0xAA, 0xBB, 0xC0] = Inr s' \<and>
         unat (ackNum s') = 1 \<and>
         events s' = [LowerSend (slip_encode spec_lib
                                   (h5_encode spec_lib [] 0 (ackNum s') False False ACK_PACKET)),
                      DataCallback [0xAA, 0xBB]])"
proof -
  let ?s = "transport_in STATE_ACTIVE 0 0"
  let ?d = "\<lparr>h5Payload = [0xAA, 0xBB], seq_num = 0, ack_num = 0, reliable_packet = True,
             packet_type = VENDOR_SPECIFIC_PACKET\<rparr>"
  have h1: "currentState ?s = STATE_ACTIVE" by (simp add: transport_in_defs)
  have h6: "exitCriterias ?s STATE_ACTIVE =
              Some (ActiveObj \<lparr>ioResourceError = False, close = False,
                               irrecoverableSyncError = False, syncReceived = False\<rparr>)"
    by (simp add: transport_in_defs)
  have h4: "packet_type ?d = VENDOR_SPECIFIC_PACKET" and h5: "reliable_packet ?d" by simp_all
  have h7: "seq_num ?d = ackNum ?s" "events ?s = []" "unat (ackNum ?s) = 0"
    by (simp_all add: transport_in_defs)
  from reliable_vendor_packet_in_ACTIVE [OF h1 slip_decode_data h5_decode_data h4 h5 h6]
    h7 h1 slip_decode_data h5_decode_data
  show ?thesis by auto
qed

section \<open>Calling send outside ACTIVE: C5\<close>

text \<open>
  C5. A call of \<open>send\<close> made while the current state is not ACTIVE returns
  \<open>NRF_ERROR_INVALID_STATE\<close> and leaves the whole object as it was: nothing is written to
  the lower transport (the trace is unchanged), and \<open>seqNum\<close>, \<open>ackNum\<close> and every
  exit-criteria flag keep their values.
\<close>

theorem send_rejected_outside_ACTIVE:
  "currentState s \<noteq> STATE_ACTIVE \<Longrightarrow>
   send lib s data windows = Inr (NRF_ERROR_INVALID_STATE, s)"
  by (simp add: send_def)

theorem send_rejected_outside_ACTIVE_witness:
  "currentState (transport_in STATE_INITIALIZED 3 5) \<noteq> STATE_ACTIVE \<and>
   send spec_lib (transport_in STATE_INITIALIZED 3 5) [0xAA, 0xBB] [] =
     Inr (NRF_ERROR_INVALID_STATE, transport_in STATE_INITIALIZED 3 5)"
proof -
  have h: "currentState (transport_in STATE_INITIALIZED 3 5) \<noteq> STATE_ACTIVE"
    by (simp add: transport_in_defs)
  from h send_rejected_outside_ACTIVE [OF h] show ?thesis by simp
qed

section \<open>Sequence counters outside ACTIVE: C7\<close>

text \<open>
  C7. The claim: \<open>seqNum\<close> and \<open>ackNum\<close> change only while the current state is ACTIVE;
  in particular an ACK packet received outside ACTIVE does not advance \<open>seqNum\<close>. The ACK
  branch of \<open>processPacket\<close> does not look at the state. Evaluated in state UNINITIALIZED
  with \<open>seqNum = 0\<close> on the ACK packet with \<open>ack_num = 1\<close> (the frame C0 01 00 00 FF C0 of
  the concrete codec): \<open>seqNum\<close> becomes 1 and \<open>ackWaitCondition\<close> is notified, while the
  state is still UNINITIALIZED.
\<close>

theorem ack_advances_seqNum_in_UNINITIALIZED:
  "processPacket spec_lib (transport_in STATE_UNINITIALIZED 0 0) [0xC0, 1, 0, 0, 0xFF, 0xC0] =
     Inr ((transport_in STATE_UNINITIALIZED 0 0)
            \<lparr>seqNum := 1, incomingPacketCount := 1, events := [AckNotify]\<rparr>)"
  by (simp add: processPacket_def processAck_def logPacket_def update_Active_def
        slip_decode_ack1 h5_decode_ack1 transport_in_defs emit_def incrementSeqNum_def)

section \<open>A stray ACK outside ACTIVE: C10\<close>

text \<open>
  C10. An ACK packet whose \<open>ack_num\<close> is neither \<open>seqNum\<close> nor \<open>seqNum + 1\<close>, processed
  while the current state is neither ACTIVE nor RESET, makes \<open>processPacket\<close> cast the
  criteria object of that state to \<open>ActiveExitCriterias\<close> and write through the result.
  With the criteria objects as \<open>setupStateMachine\<close> creates them, the cast yields the null
  pointer, so the packet is not dropped: the write dereferences null.
\<close>

theorem stray_ack_outside_ACTIVE_dereferences_null:
  assumes "slip_decode lib packet = Some sp"
    and "h5_decode lib sp = Some d"
    and "packet_type d = ACK_PACKET"
    and "unat (ack_num d) \<noteq> unat (seqNum s) + 1"
    and "ack_num d \<noteq> seqNum s"
    and "currentState s \<noteq> STATE_ACTIVE"
    and "currentState s \<noteq> STATE_RESET"
    and "criterias_typed s"
  shows "processPacket lib s packet = Inl NullPointerDereference"
proof -
  have "\<forall>e. exitCriterias s (currentState s) \<noteq> Some (ActiveObj e)"
    using assms(6,8)
    by (cases "currentState s")
       (auto simp: criterias_typed_def split: option.splits exit_object.splits)
  then have "update_Active (currentState s) f (logPacket False s) = Inl NullPointerDereference"
    for f
    by (auto simp: update_Active_def logPacket_def split: option.splits exit_object.splits)
  then show ?thesis
    using assms by (simp add: processPacket_def processAck_def Let_def logPacket_def)
qed

theorem stray_ack_outside_ACTIVE_dereferences_null_witness:
  "slip_decode spec_lib [0xC0, 5, 0, 0, 0xFB, 0xC0] = Some [5, 0, 0, 0xFB] \<and>
   h5_decode spec_lib [5, 0, 0, 0xFB] =
     Some \<lparr>h5Payload = [], seq_num = 0, ack_num = 5, reliable_packet = False,
           packet_type = ACK_PACKET\<rparr> \<and>
   currentState (transport_in STATE_UNINITIALIZED 0 0) = STATE_UNINITIALIZED \<and>
   seqNum (transport_in STATE_UNINITIALIZED 0 0) = 0 \<and>
   criterias_typed (transport_in STATE_UNINITIALIZED 0 0) \<and>
   processPacket spec_lib (transport_in STATE_UNINITIALIZED 0 0) [0xC0, 5, 0, 0, 0xFB, 0xC0] =
     Inl NullPointerDereference"
proof -
  let ?s = "transport_in STATE_UNINITIALIZED 0 0"
  let ?d = "\<lparr>h5Payload = [], seq_num = 0, ack_num = 5, reliable_packet = False,
             packet_type = ACK_PACKET\<rparr>"
  have st: "currentState ?s = STATE_UNINITIALIZED" and sq: "seqNum ?s = 0"
    by (simp_all add: transport_in_defs)
  have ty: "criterias_typed ?s"
    by (simp add: criterias_typed_def transport_in_defs)
  have h3: "packet_type ?d = ACK_PACKET" by simp
  have h4: "unat (ack_num ?d) \<noteq> unat (seqNum ?s) + 1" by (simp add: sq)
  have h5: "ack_num ?d \<noteq> seqNum ?s" by (simp add: sq)
  have h6: "currentState ?s \<noteq> STATE_ACTIVE" and h7: "currentState ?s \<noteq> STATE_RESET"
    by (simp_all add: st)
  from stray_ack_outside_ACTIVE_dereferences_null
         [OF slip_decode_ack5 h5_decode_ack5 h3 h4 h5 h6 h7 ty]
    slip_decode_ack5 h5_decode_ack5 st sq ty
  show ?thesis by simp
qed

section \<open>What the reader thread does to the sender\<close>













lemma reader_event_simps [simp]:
  "reader_event SyncNotify" "reader_event (LowerSend f)" "reader_event (DataCallback p)"
  "\<not> reader_event AckNotify" "\<not> reader_event (AckWait n)"
  by (simp_all add: reader_event_def)













section \<open>The result of send and the sequence number: C3\<close>



section \<open>Retransmission without acknowledgement: C4\<close>




section \<open>The receive assembler: C6\<close>

lemma ignoresD:
  assumes "ignores_assembler pp"
  shows "pp (s\<lparr>unprocessedData := u, c0Found := c\<rparr>) f =
        (case pp s f of
           Inl e \<Rightarrow> Inl e
         | Inr s1 \<Rightarrow> Inr (s1\<lparr>unprocessedData := u, c0Found := c\<rparr>))"
  using assms by (simp add: ignores_assembler_def)

lemma ignores_unprocessed:
  assumes "ignores_assembler pp"
  shows "pp (s\<lparr>unprocessedData := u\<rparr>) f =
        (case pp s f of
           Inl e \<Rightarrow> Inl e
         | Inr s1 \<Rightarrow> Inr (s1\<lparr>unprocessedData := u, c0Found := c0Found s\<rparr>))"
proof -
  have "s\<lparr>unprocessedData := u\<rparr> = s\<lparr>unprocessedData := u, c0Found := c0Found s\<rparr>" by simp
  then show ?thesis using ignoresD [OF assms, where s = s and u = u and c = "c0Found s" and f = f] by simp
qed

lemma ignores_c0Found:
  assumes "ignores_assembler pp"
  shows "pp (s\<lparr>c0Found := c\<rparr>) f =
        (case pp s f of
           Inl e \<Rightarrow> Inl e
         | Inr s1 \<Rightarrow> Inr (s1\<lparr>unprocessedData := unprocessedData s, c0Found := c\<rparr>))"
proof -
  have "s\<lparr>c0Found := c\<rparr> = s\<lparr>unprocessedData := unprocessedData s, c0Found := c\<rparr>" by simp
  then show ?thesis using ignoresD [OF assms, where s = s and u = "unprocessedData s" and c = c and f = f] by simp
qed

lemma loop_append:
  "dataHandler_loop pp (xs @ ys) s p =
     bindF (dataHandler_loop pp xs s p) (\<lambda>(s1, p1). dataHandler_loop pp ys s1 p1)"
  by (induction xs arbitrary: s p) (auto split: sum.splits)

lemma loop_body:
  "0xC0 \<notin> set body \<Longrightarrow> dataHandler_loop pp body s p = Inr (s, p @ body)"
  by (induction body arbitrary: p) auto

text \<open>The buffer is empty only when the stored tail is empty.\<close>

lemma loop_tail_inv:
  assumes "dataHandler_loop pp bs s p = Inr (s1, p1)"
    and "p = [] \<longrightarrow> unprocessedData s = []"
  shows "p1 = [] \<longrightarrow> unprocessedData s1 = []"
  using assms
proof (induction bs arbitrary: s p)
  case Nil
  then show ?case by simp
next
  case (Cons b bs)
  then show ?case
    by (auto split: if_splits sum.splits)
qed

text \<open>The stored tail does not influence the loop, except that it is carried along.\<close>

lemma loop_unprocessed:
  assumes "ignores_assembler pp"
  shows "(case dataHandler_loop pp bs (s\<lparr>unprocessedData := u\<rparr>) p of
            Inl e \<Rightarrow> Inl e | Inr (s1, p1) \<Rightarrow> Inr (s1\<lparr>unprocessedData := p1\<rparr>)) =
         (case dataHandler_loop pp bs s p of
            Inl e \<Rightarrow> Inl e | Inr (s1, p1) \<Rightarrow> Inr (s1\<lparr>unprocessedData := p1\<rparr>))"
proof (induction bs arbitrary: s p)
  case Nil
  show ?case by simp
next
  case (Cons b bs)
  show ?case
  proof (cases "b = 0xC0 \<and> c0Found s \<and> length (p @ [b]) \<noteq> 2")
    case True
    then show ?thesis
      by (cases "pp s (p @ [b])") (simp_all add: ignores_unprocessed [OF assms])
  next
    case False
    have sw: "s\<lparr>unprocessedData := u, c0Found := True\<rparr> = (s\<lparr>c0Found := True\<rparr>)\<lparr>unprocessedData := u\<rparr>"
      by simp
    from False show ?thesis
      using Cons.IH [of s] Cons.IH [of "s\<lparr>c0Found := True\<rparr>"]
      by (auto simp: sw simp del: H5Transport.update_convs)
  qed
qed

lemma dataHandler_with_alt:
  "dataHandler_with pp s data =
     (case dataHandler_loop pp data s (unprocessedData s) of
        Inl e \<Rightarrow> Inl e | Inr (s1, p1) \<Rightarrow> Inr (s1\<lparr>unprocessedData := p1\<rparr>))"
proof (cases "dataHandler_loop pp data s (unprocessedData s)")
  case (Inl e)
  then show ?thesis by (simp add: dataHandler_with_def)
next
  case (Inr r)
  obtain s1 p1 where r: "r = (s1, p1)" by (cases r)
  from loop_tail_inv [OF Inr [unfolded r]] have "p1 = [] \<longrightarrow> unprocessedData s1 = []" by simp
  then have "(if p1 \<noteq> [] then s1\<lparr>unprocessedData := p1\<rparr> else s1) = s1\<lparr>unprocessedData := p1\<rparr>"
    by auto
  with Inr r show ?thesis by (simp add: dataHandler_with_def)
qed

text \<open>Cutting a chunk in two does not change what the assembler does.\<close>

lemma dataHandler_with_append:
  assumes "ignores_assembler pp"
  shows "dataHandler_with pp s (xs @ ys) =
           bindF (dataHandler_with pp s xs) (\<lambda>s1. dataHandler_with pp s1 ys)"
proof (cases "dataHandler_loop pp xs s (unprocessedData s)")
  case (Inl e)
  then show ?thesis by (simp add: dataHandler_with_alt loop_append)
next
  case (Inr r)
  obtain s1 p1 where r: "r = (s1, p1)" by (cases r)
  have "dataHandler_with pp (s1\<lparr>unprocessedData := p1\<rparr>) ys =
          (case dataHandler_loop pp ys (s1\<lparr>unprocessedData := p1\<rparr>) p1 of
             Inl e \<Rightarrow> Inl e | Inr (s2, p2) \<Rightarrow> Inr (s2\<lparr>unprocessedData := p2\<rparr>))"
    by (simp add: dataHandler_with_alt)
  also have "\<dots> = (case dataHandler_loop pp ys s1 p1 of
             Inl e \<Rightarrow> Inl e | Inr (s2, p2) \<Rightarrow> Inr (s2\<lparr>unprocessedData := p2\<rparr>))"
    by (rule loop_unprocessed [OF assms])
  finally show ?thesis using Inr r
    by (simp add: dataHandler_with_alt loop_append)
qed

lemma feed_chunks_concat:
  assumes "ignores_assembler pp"
  shows "feed_chunks pp s chunks = dataHandler_with pp s (concat chunks)"
proof (induction chunks arbitrary: s)
  case Nil
  show ?case by (simp add: dataHandler_with_alt)
next
  case (Cons c cs)
  show ?case
    by (simp add: dataHandler_with_append [OF assms] Cons.IH bindF_def split: sum.splits)
qed

lemma well_formed_frameD:
  assumes "well_formed_frame f"
  obtains body where "f = 0xC0 # body @ [0xC0]" "body \<noteq> []" "0xC0 \<notin> set body"
proof -
  from assms have l: "3 \<le> length f" and h: "hd f = 0xC0" and t: "last f = 0xC0"
    and b: "0xC0 \<notin> set (butlast (tl f))"
    by (simp_all add: well_formed_frame_def)
  from l obtain x r where f: "f = x # r" by (cases f) auto
  with l have "r \<noteq> []" by auto
  then have r: "r = butlast r @ [last r]" by simp
  from f l have "2 \<le> length r" by simp
  then have "butlast r \<noteq> []" by (cases r rule: rev_cases) auto
  moreover from f h t r \<open>r \<noteq> []\<close> have "f = 0xC0 # butlast r @ [0xC0]" by simp
  moreover from b f have "0xC0 \<notin> set (butlast r)" by simp
  ultimately show ?thesis using that by blast
qed

text \<open>A well-formed frame delivered as one chunk is one call of the handler.\<close>

lemma dataHandler_with_frame:
  assumes ig: "ignores_assembler pp" and wf: "well_formed_frame f" and c: "\<not> c0Found s"
  shows "dataHandler_with pp s f =
           (case pp s f of
              Inl e \<Rightarrow> Inl e
            | Inr s1 \<Rightarrow> Inr (s1\<lparr>unprocessedData := [], c0Found := False\<rparr>))"
proof -
  from wf obtain body where f: "f = 0xC0 # body @ [0xC0]" and ne: "body \<noteq> []"
    and nd: "0xC0 \<notin> set body"
    by (rule well_formed_frameD)
  let ?s1 = "s\<lparr>c0Found := True\<rparr>"
  have "dataHandler_loop pp f s (unprocessedData s) =
          dataHandler_loop pp (body @ [0xC0]) ?s1 [0xC0]"
    using c by (simp add: f)
  also have "\<dots> = dataHandler_loop pp [0xC0] ?s1 (0xC0 # body)"
    by (simp add: loop_append loop_body [OF nd])
  also have "\<dots> = (case pp ?s1 f of
                      Inl e \<Rightarrow> Inl e
                    | Inr s2 \<Rightarrow> Inr (s2\<lparr>unprocessedData := [], c0Found := False\<rparr>, []))"
    using ne by (simp add: f split: sum.splits)
  also have "\<dots> = (case pp s f of
                      Inl e \<Rightarrow> Inl e
                    | Inr s2 \<Rightarrow> Inr (s2\<lparr>unprocessedData := [], c0Found := False\<rparr>, []))"
    by (simp add: ignores_c0Found [OF ig] split: sum.splits)
  finally show ?thesis
    by (simp add: dataHandler_with_alt split: sum.splits)
qed

lemma feed_frames:
  assumes ig: "ignores_assembler pp"
  shows "\<forall>f\<in>set frames. well_formed_frame f \<Longrightarrow> \<not> c0Found s \<Longrightarrow>
         feed_chunks pp s frames = process_frames pp s frames"
proof (induction frames arbitrary: s)
  case Nil
  show ?case by simp
next
  case (Cons f fs)
  then have wf: "well_formed_frame f" and c: "\<not> c0Found s" by simp_all
  show ?case
  proof (cases "pp s f")
    case (Inl e)
    then show ?thesis by (simp add: dataHandler_with_frame [OF ig wf c])
  next
    case (Inr s1)
    have "feed_chunks pp (s1\<lparr>unprocessedData := [], c0Found := False\<rparr>) fs =
          process_frames pp (s1\<lparr>unprocessedData := [], c0Found := False\<rparr>) fs"
      using Cons.prems by (intro Cons.IH) simp_all
    with Inr show ?thesis by (simp add: dataHandler_with_frame [OF ig wf c])
  qed
qed

lemma double_delimiter:
  "dataHandler_loop pp [0xC0, 0xC0] s packet =
     bindF (dataHandler_loop pp [0xC0] s packet)
       (\<lambda>(s1, p1). Inr (s1\<lparr>c0Found := True\<rparr>, [0xC0]))"
proof (cases "c0Found s")
  case False
  then show ?thesis by simp
next
  case True
  then have same: "s\<lparr>c0Found := True\<rparr> = s" by (cases s) simp
  from True show ?thesis
    by (auto simp: same split: sum.splits)
qed

lemma update_Active_assembler:
  "update_Active st f (s\<lparr>unprocessedData := u, c0Found := c\<rparr>) =
     (case update_Active st f s of Inl e \<Rightarrow> Inl e
      | Inr s1 \<Rightarrow> Inr (s1\<lparr>unprocessedData := u, c0Found := c\<rparr>))"
  by (simp add: update_Active_def split: option.splits exit_object.splits)

lemma update_Uninitialized_assembler:
  "update_Uninitialized st f (s\<lparr>unprocessedData := u, c0Found := c\<rparr>) =
     (case update_Uninitialized st f s of Inl e \<Rightarrow> Inl e
      | Inr s1 \<Rightarrow> Inr (s1\<lparr>unprocessedData := u, c0Found := c\<rparr>))"
  by (simp add: update_Uninitialized_def split: option.splits exit_object.splits)

lemma update_Initialized_assembler:
  "update_Initialized st f (s\<lparr>unprocessedData := u, c0Found := c\<rparr>) =
     (case update_Initialized st f s of Inl e \<Rightarrow> Inl e
      | Inr s1 \<Rightarrow> Inr (s1\<lparr>unprocessedData := u, c0Found := c\<rparr>))"
  by (simp add: update_Initialized_def split: option.splits exit_object.splits)

lemma emit_assembler:
  "emit e (s\<lparr>unprocessedData := u, c0Found := c\<rparr>) =
     (emit e s)\<lparr>unprocessedData := u, c0Found := c\<rparr>"
  by (simp add: emit_def)

lemma logPacket_assembler:
  "logPacket b (s\<lparr>unprocessedData := u, c0Found := c\<rparr>) =
     (logPacket b s)\<lparr>unprocessedData := u, c0Found := c\<rparr>"
  by (simp add: logPacket_def)

lemma sendControlPacket_assembler:
  "sendControlPacket lib t (s\<lparr>unprocessedData := u, c0Found := c\<rparr>) =
     (sendControlPacket lib t s)\<lparr>unprocessedData := u, c0Found := c\<rparr>"
  by (simp add: sendControlPacket_def emit_def logPacket_def Let_def)

lemma incrementAckNum_assembler:
  "incrementAckNum (s\<lparr>unprocessedData := u, c0Found := c\<rparr>) =
     (incrementAckNum s)\<lparr>unprocessedData := u, c0Found := c\<rparr>"
  by (simp add: incrementAckNum_def)

lemma incrementSeqNum_assembler:
  "incrementSeqNum (s\<lparr>unprocessedData := u, c0Found := c\<rparr>) =
     (incrementSeqNum s)\<lparr>unprocessedData := u, c0Found := c\<rparr>"
  by (simp add: incrementSeqNum_def)

lemmas assembler_simps =
  update_Active_assembler update_Uninitialized_assembler update_Initialized_assembler
  emit_assembler logPacket_assembler sendControlPacket_assembler
  incrementAckNum_assembler incrementSeqNum_assembler

lemma currentState_sendControlPacket [simp]:
  "currentState (sendControlPacket lib t s) = currentState s"
  by (simp add: sendControlPacket_def Let_def logPacket_def)

lemma linkControl_UNINITIALIZED_assembler:
  "linkControl_UNINITIALIZED lib a b (s\<lparr>unprocessedData := u, c0Found := c\<rparr>) =
     (case linkControl_UNINITIALIZED lib a b s of Inl e \<Rightarrow> Inl e
      | Inr s1 \<Rightarrow> Inr (s1\<lparr>unprocessedData := u, c0Found := c\<rparr>))"
  by (simp add: linkControl_UNINITIALIZED_def assembler_simps bindF_def split: sum.splits)

lemma linkControl_INITIALIZED_assembler:
  "linkControl_INITIALIZED lib a b d (s\<lparr>unprocessedData := u, c0Found := c\<rparr>) =
     (case linkControl_INITIALIZED lib a b d s of Inl e \<Rightarrow> Inl e
      | Inr s1 \<Rightarrow> Inr (s1\<lparr>unprocessedData := u, c0Found := c\<rparr>))"
  by (simp add: linkControl_INITIALIZED_def assembler_simps bindF_def split: sum.splits)

lemma linkControl_ACTIVE_assembler:
  "linkControl_ACTIVE a (s\<lparr>unprocessedData := u, c0Found := c\<rparr>) =
     (case linkControl_ACTIVE a s of Inl e \<Rightarrow> Inl e
      | Inr s1 \<Rightarrow> Inr (s1\<lparr>unprocessedData := u, c0Found := c\<rparr>))"
  by (simp add: linkControl_ACTIVE_def assembler_simps bindF_def split: sum.splits)

lemma processLinkControl_assembler:
  "processLinkControl lib (s\<lparr>unprocessedData := u, c0Found := c\<rparr>) p =
     (case processLinkControl lib s p of Inl e \<Rightarrow> Inl e
      | Inr s1 \<Rightarrow> Inr (s1\<lparr>unprocessedData := u, c0Found := c\<rparr>))"
  by (simp add: processLinkControl_def linkControl_UNINITIALIZED_assembler
        linkControl_INITIALIZED_assembler linkControl_ACTIVE_assembler bindF_def
      split: sum.splits)

lemma processVendorSpecific_assembler:
  "processVendorSpecific lib (s\<lparr>unprocessedData := u, c0Found := c\<rparr>) d =
     (case processVendorSpecific lib s d of Inl e \<Rightarrow> Inl e
      | Inr s1 \<Rightarrow> Inr (s1\<lparr>unprocessedData := u, c0Found := c\<rparr>))"
  by (simp add: processVendorSpecific_def assembler_simps bindF_def split: sum.splits)

lemma processAck_assembler:
  "processAck (s\<lparr>unprocessedData := u, c0Found := c\<rparr>) d =
     (case processAck s d of Inl e \<Rightarrow> Inl e
      | Inr s1 \<Rightarrow> Inr (s1\<lparr>unprocessedData := u, c0Found := c\<rparr>))"
  by (simp add: processAck_def assembler_simps bindF_def split: sum.splits)

lemma processPacket_ignores_assembler: "ignores_assembler (processPacket lib)"
  unfolding ignores_assembler_def
proof (intro allI)
  fix s f u c
  show "processPacket lib (s\<lparr>unprocessedData := u, c0Found := c\<rparr>) f =
        (case processPacket lib s f of Inl e \<Rightarrow> Inl e
         | Inr s1 \<Rightarrow> Inr (s1\<lparr>unprocessedData := u, c0Found := c\<rparr>))"
    by (simp add: processPacket_def Let_def logPacket_assembler emit_assembler
          processLinkControl_assembler processVendorSpecific_assembler processAck_assembler
        split: option.splits)
qed

text \<open>
  C6. Let a byte stream consist of well-formed stuffed frames and be cut into chunks in
  any way, and let the assembler start with no delimiter seen. Feeding the chunks to
  \<open>dataHandler\<close> one after the other is the same as calling the packet handler on exactly
  those frames, in order; tails of incomplete frames are carried from chunk to chunk.
  This holds for every handler that does not touch the two members of the assembler, as
  \<open>processPacket\<close> does not (lemma \<open>processPacket_ignores_assembler\<close>). And the second of
  two consecutive \<open>0xC0\<close> bytes never triggers a call of the handler: whatever the first
  one did, the second leaves the buffer holding just \<open>0xC0\<close>, with the delimiter seen.
\<close>

theorem dataHandler_reassembles_frames:
  assumes "ignores_assembler pp"
    and "\<forall>f\<in>set frames. well_formed_frame f"
    and "concat chunks = concat frames"
    and "\<not> c0Found s"
  shows "feed_chunks pp s chunks = process_frames pp s frames \<and>
         dataHandler_loop pp [0xC0, 0xC0] s packet =
           bindF (dataHandler_loop pp [0xC0] s packet)
             (\<lambda>(s1, p1). Inr (s1\<lparr>c0Found := True\<rparr>, [0xC0]))"
proof -
  have "feed_chunks pp s chunks = dataHandler_with pp s (concat chunks)"
    by (rule feed_chunks_concat [OF assms(1)])
  also have "\<dots> = feed_chunks pp s frames"
    by (simp add: assms(3) feed_chunks_concat [OF assms(1)])
  also have "\<dots> = process_frames pp s frames"
    by (rule feed_frames [OF assms(1,2,4)])
  finally have "feed_chunks pp s chunks = process_frames pp s frames" .
  then show ?thesis using double_delimiter [of pp s packet] by (rule conjI)
qed

theorem dataHandler_reassembles_frames_witness:
  "ignores_assembler (processPacket spec_lib) \<and>
   well_formed_frame [0xC0, 1, 0, 0, 0xFF, 0xC0] \<and>
   well_formed_frame [0xC0, 0x10, 0x29, 0, 0xC7, 0xAA, 0xBB, 0xC0] \<and>
   concat [[0xC0, 1], [0, 0, 0xFF, 0xC0, 0xC0, 0x10, 0x29], [], [0, 0xC7, 0xAA, 0xBB, 0xC0 :: u8]] =
   concat [[0xC0, 1, 0, 0, 0xFF, 0xC0], [0xC0, 0x10, 0x29, 0, 0xC7, 0xAA, 0xBB, 0xC0]] \<and>
   \<not> c0Found (transport_in STATE_ACTIVE 0 0) \<and>
   feed_chunks (processPacket spec_lib) (transport_in STATE_ACTIVE 0 0)
     [[0xC0, 1], [0, 0, 0xFF, 0xC0, 0xC0, 0x10, 0x29], [], [0, 0xC7, 0xAA, 0xBB, 0xC0]] =
   process_frames (processPacket spec_lib) (transport_in STATE_ACTIVE 0 0)
     [[0xC0, 1, 0, 0, 0xFF, 0xC0], [0xC0, 0x10, 0x29, 0, 0xC7, 0xAA, 0xBB, 0xC0]]"
proof -
  let ?frames = "[[0xC0, 1, 0, 0, 0xFF, 0xC0], [0xC0, 0x10, 0x29, 0, 0xC7, 0xAA, 0xBB, 0xC0]]
                   :: bytes list"
  let ?chunks = "[[0xC0, 1], [0, 0, 0xFF, 0xC0, 0xC0, 0x10, 0x29], [], [0, 0xC7, 0xAA, 0xBB, 0xC0]]
                   :: bytes list"
  let ?s = "transport_in STATE_ACTIVE 0 0"
  have h1: "ignores_assembler (processPacket spec_lib)"
    by (rule processPacket_ignores_assembler)
  have h2: "\<forall>f\<in>set ?frames. well_formed_frame f" by (simp add: well_formed_frame_def)
  have h3: "concat ?chunks = concat ?frames" by simp
  have h4: "\<not> c0Found ?s" by (simp add: transport_in_defs)
  from dataHandler_reassembles_frames [OF h1 h2 h3 h4, of "[]"]
  have "feed_chunks (processPacket spec_lib) ?s ?chunks =
        process_frames (processPacket spec_lib) ?s ?frames"
    by (rule conjunct1)
  with h1 h2 h3 h4 show ?thesis by simp
qed

section \<open>Entering ACTIVE: C8\<close>



section \<open>The result of open: C9\<close>




end
